theory Spec2Isabelle
  imports Main
begin

section \<open>The generated header \<^verbatim>\<open>GeneratedAssetSymbols.h\<close>\<close>

text \<open>
  The repository's source is one generated Objective-C header. It imports Foundation,
  defines the helper macro \<^verbatim>\<open>AC_SWIFT_PRIVATE\<close> under a feature check, declares four
  \<^verbatim>\<open>static NSString * const\<close> objects, and undefines the helper macro.

  The header is embedded as the list of its lines, each declaration as the list of its
  tokens. What the C preprocessor and the compiler do with these lines is modelled by
  executable functions: conditional inclusion, macro definition and removal, macro
  expansion, and the reading of an expanded declaration.
\<close>

subsection \<open>Tokens and lines\<close>

text \<open>
  A token is an identifier (keywords included, as for the preprocessor), a punctuator, or
  an Objective-C string literal \<^verbatim>\<open>@"..."\<close>, kept by its contents.
\<close>

datatype token = Ident string | Sym string | ObjCString string

datatype condition = HasAttribute string

datatype line =
    Import string
  | IfElse condition "line list" "line list"
  | Define string "token list"
  | Undef string
  | Comment string
  | Decl "token list"

text \<open>
  The declaration \<^verbatim>\<open>static NSString * const NAME AC_SWIFT_PRIVATE = @"VALUE";\<close> as written
  on lines 10, 13, 16 and 19.
\<close>

definition string_constant :: "string \<Rightarrow> string \<Rightarrow> line" where
  "string_constant name val =
     Decl [Ident ''static'', Ident ''NSString'', Sym ''*'', Ident ''const'', Ident name,
           Ident ''AC_SWIFT_PRIVATE'', Sym ''='', ObjCString val, Sym '';'']"

text \<open>The header, line by line (blank lines left out).\<close>

definition GeneratedAssetSymbols :: "line list" where
  \<open>GeneratedAssetSymbols =
     [Import ''Foundation/Foundation.h'',
      IfElse (HasAttribute ''swift_private'')
        [Define ''AC_SWIFT_PRIVATE''
           [Ident ''__attribute__'', Sym ''('', Sym ''('', Ident ''swift_private'', Sym '')'', Sym '')'']]
        [Define ''AC_SWIFT_PRIVATE'' []],
      Comment ''The resource bundle ID.'',
      string_constant ''ACBundleID'' ''com.geekedoutinnovations.MetacognitiveJournal'',
      Comment ''The "AccentColor" asset catalog color resource.'',
      string_constant ''ACColorNameAccentColor'' ''AccentColor'',
      Comment ''The "Color" asset catalog color resource.'',
      string_constant ''ACColorNameColor'' ''Color'',
      Comment ''The "Image" asset catalog image resource.'',
      string_constant ''ACImageNameImage'' ''Image'',
      Undef ''AC_SWIFT_PRIVATE'']\<close>

subsection \<open>The preprocessor\<close>

text \<open>
  Three things the header depends on are not part of the sources and are parameters of
  the model: which attributes the compiler supports (\<^verbatim>\<open>__has_attribute\<close>), which macros
  an imported header defines, and which macros the including translation unit has
  defined before it includes this header.
\<close>

record unit_context =
  has_attribute :: "string \<Rightarrow> bool"
  header_macros :: "string \<Rightarrow> (string \<rightharpoonup> token list)"
  predefined :: "string \<rightharpoonup> token list"

record pp_state =
  macros :: "string \<rightharpoonup> token list"
  emitted :: "token list list"

fun eval_condition :: "unit_context \<Rightarrow> condition \<Rightarrow> bool" where
  "eval_condition ctx (HasAttribute a) = has_attribute ctx a"

text \<open>
  Expansion of object-like macros in a line of tokens: an identifier that names a macro
  is replaced by the macro's replacement list. The replacement list is not scanned
  again; the results about declarations are stated for environments in which no
  identifier of a replacement list is a macro, where rescanning changes nothing.
\<close>

fun expand :: "(string \<rightharpoonup> token list) \<Rightarrow> token list \<Rightarrow> token list" where
  "expand m [] = []"
| "expand m (Ident x # ts) =
     (case m x of Some r \<Rightarrow> r @ expand m ts | None \<Rightarrow> Ident x # expand m ts)"
| "expand m (t # ts) = t # expand m ts"

text \<open>
  One line, and a list of lines. \<^verbatim>\<open>#define\<close> of a name that is already defined replaces
  the definition, as clang does (with a warning when the two differ).
\<close>

fun pp_line :: "unit_context \<Rightarrow> line \<Rightarrow> pp_state \<Rightarrow> pp_state"
  and pp_lines :: "unit_context \<Rightarrow> line list \<Rightarrow> pp_state \<Rightarrow> pp_state" where
  "pp_line ctx (Import h) s = s\<lparr>macros := macros s ++ header_macros ctx h\<rparr>"
| "pp_line ctx (IfElse c a b) s =
     (if eval_condition ctx c then pp_lines ctx a s else pp_lines ctx b s)"
| "pp_line ctx (Define n r) s = s\<lparr>macros := (macros s)(n \<mapsto> r)\<rparr>"
| "pp_line ctx (Undef n) s = s\<lparr>macros := (macros s)(n := None)\<rparr>"
| "pp_line ctx (Comment c) s = s"
| "pp_line ctx (Decl ts) s = s\<lparr>emitted := emitted s @ [expand (macros s) ts]\<rparr>"
| "pp_lines ctx [] s = s"
| "pp_lines ctx (l # ls) s = pp_lines ctx ls (pp_line ctx l s)"

definition preprocess :: "unit_context \<Rightarrow> pp_state" where
  "preprocess ctx =
     pp_lines ctx GeneratedAssetSymbols \<lparr>macros = predefined ctx, emitted = []\<rparr>"

subsection \<open>Declarations\<close>

text \<open>
  What the compiler reads from an expanded declaration line of the form
  \<^verbatim>\<open>[static] TYPE * [const] NAME [__attribute__((A))]... = @"VALUE";\<close>:
  the storage class, the pointee type, whether the pointer object is \<^verbatim>\<open>const\<close>, the
  name, the attributes and the initializer. Any other line is rejected.
\<close>

record var_decl =
  is_static :: bool
  pointee_type :: string
  is_const :: bool
  decl_name :: string
  attributes :: "string list"
  initializer :: string

datatype error = MalformedDeclaration "token list" | UndeclaredIdentifier string

fun optional :: "token \<Rightarrow> token list \<Rightarrow> bool \<times> token list" where
  "optional t [] = (False, [])"
| "optional t (x # ts) = (if x = t then (True, ts) else (False, x # ts))"

fun parse_attributes :: "token list \<Rightarrow> string list \<times> token list" where
  "parse_attributes (Ident kw # Sym a # Sym b # Ident x # Sym c # Sym d # ts) =
     (if kw = ''__attribute__'' \<and> a = ''('' \<and> b = ''('' \<and> c = '')'' \<and> d = '')''
      then (case parse_attributes ts of (xs, rest) \<Rightarrow> (x # xs, rest))
      else ([], Ident kw # Sym a # Sym b # Ident x # Sym c # Sym d # ts))"
| "parse_attributes ts = ([], ts)"

definition parse_declaration :: "token list \<Rightarrow> error + var_decl" where
  "parse_declaration ts =
     (case optional (Ident ''static'') ts of (st, ts1) \<Rightarrow>
        (case ts1 of
           Ident ty # Sym star # ts2 \<Rightarrow>
             (case optional (Ident ''const'') ts2 of (cq, ts3) \<Rightarrow>
                (case ts3 of
                   Ident n # ts4 \<Rightarrow>
                     (case parse_attributes ts4 of
                        (as, [Sym eq, ObjCString v, Sym semi]) \<Rightarrow>
                          if star = ''*'' \<and> eq = ''='' \<and> semi = '';''
                          then Inr \<lparr>is_static = st, pointee_type = ty, is_const = cq,
                                    decl_name = n, attributes = as, initializer = v\<rparr>
                          else Inl (MalformedDeclaration ts)
                      | _ \<Rightarrow> Inl (MalformedDeclaration ts))
                 | _ \<Rightarrow> Inl (MalformedDeclaration ts)))
         | _ \<Rightarrow> Inl (MalformedDeclaration ts)))"

fun parse_all :: "token list list \<Rightarrow> error + var_decl list" where
  "parse_all [] = Inr []"
| "parse_all (l # ls) =
     (case parse_declaration l of
        Inl e \<Rightarrow> Inl e
      | Inr d \<Rightarrow> (case parse_all ls of Inl e \<Rightarrow> Inl e | Inr ds \<Rightarrow> Inr (d # ds)))"

text \<open>The header as the compiler sees it: preprocessed, then read line by line.\<close>

definition translation_unit :: "unit_context \<Rightarrow> error + var_decl list" where
  "translation_unit ctx = parse_all (emitted (preprocess ctx))"

subsection \<open>Reading a constant\<close>

text \<open>
  The declared objects have static storage: they hold their initializer when the
  program starts. Reading a name that is not declared is an error.
\<close>

type_synonym store = "string \<rightharpoonup> string"

definition initial_store :: "var_decl list \<Rightarrow> store" where
  "initial_store ds = map_of (map (\<lambda>d. (decl_name d, initializer d)) ds)"

definition read :: "store \<Rightarrow> string \<Rightarrow> error + string" where
  "read s n = (case s n of Some v \<Rightarrow> Inr v | None \<Rightarrow> Inl (UndeclaredIdentifier n))"

definition constant_value :: "unit_context \<Rightarrow> string \<Rightarrow> error + string" where
  "constant_value ctx n =
     (case translation_unit ctx of Inl e \<Rightarrow> Inl e | Inr ds \<Rightarrow> read (initial_store ds) n)"

subsection \<open>Identifiers of the header\<close>

text \<open>
  The identifiers that occur in the declarations and in the replacement lists of the
  header, the helper macro's own name apart. A context in which one of them is a macro
  (say \<^verbatim>\<open>#define const\<close> before the header is included) changes what the declarations
  mean; the results about the constants are stated for contexts in which none is.
\<close>

fun idents :: "token list \<Rightarrow> string list" where
  "idents [] = []"
| "idents (Ident x # ts) = x # idents ts"
| "idents (t # ts) = idents ts"

fun line_idents :: "line \<Rightarrow> string list"
  and lines_idents :: "line list \<Rightarrow> string list" where
  "line_idents (Import h) = []"
| "line_idents (IfElse c a b) = lines_idents a @ lines_idents b"
| "line_idents (Define n r) = idents r"
| "line_idents (Undef n) = []"
| "line_idents (Comment c) = []"
| "line_idents (Decl ts) = idents ts"
| "lines_idents [] = []"
| "lines_idents (l # ls) = line_idents l @ lines_idents ls"

definition own_identifiers :: "string list" where
  "own_identifiers = removeAll ''AC_SWIFT_PRIVATE'' (remdups (lines_idents GeneratedAssetSymbols))"

definition identifiers_free :: "unit_context \<Rightarrow> bool" where
  "identifiers_free ctx \<longleftrightarrow>
     (\<forall>x \<in> set own_identifiers.
        predefined ctx x = None \<and> header_macros ctx ''Foundation/Foundation.h'' x = None)"

text \<open>A plain context: clang, which has the attribute, and no macro defined anywhere.\<close>

definition clang_context :: unit_context where
  "clang_context =
     \<lparr>has_attribute = (\<lambda>a. a = ''swift_private''),
      header_macros = (\<lambda>h. Map.empty),
      predefined = Map.empty\<rparr>"

text \<open>
  A translation unit that has defined the helper macro itself, as empty, before it
  includes the header, compiled by a compiler without the attribute: the header's own
  \<^verbatim>\<open>#define\<close> then repeats the definition that is in force.
\<close>

definition predefining_context :: unit_context where
  "predefining_context =
     \<lparr>has_attribute = (\<lambda>a. False),
      header_macros = (\<lambda>h. Map.empty),
      predefined = [''AC_SWIFT_PRIVATE'' \<mapsto> []]\<rparr>"

subsection \<open>Kinds of lines\<close>

fun is_declaration :: "line \<Rightarrow> bool" where
  "is_declaration (Decl ts) = True"
| "is_declaration l = False"

fun is_conditional :: "line \<Rightarrow> bool" where
  "is_conditional (IfElse c a b) = True"
| "is_conditional l = False"

fun is_comment :: "line \<Rightarrow> bool" where
  "is_comment (Comment c) = True"
| "is_comment l = False"

text \<open>The tokens of \<^verbatim>\<open>__attribute__((swift_private))\<close>.\<close>

definition swift_private_attribute :: "token list" where
  "swift_private_attribute =
     [Ident ''__attribute__'', Sym ''('', Sym ''('', Ident ''swift_private'', Sym '')'', Sym '')'']"

subsection \<open>Code that uses the constants\<close>

text \<open>
  The header defines no function. What code that includes it can do with a declared
  object is read it or assign to it, and C accepts an assignment only to a modifiable
  lvalue: a declared object that is not \<^verbatim>\<open>const\<close>. A program is a list of such
  statements, run in order from the initial store.
\<close>

datatype statement = Load string | Assign string string

fun accepted :: "var_decl list \<Rightarrow> statement \<Rightarrow> bool" where
  "accepted ds (Load n) = (find (\<lambda>d. decl_name d = n) ds \<noteq> None)"
| "accepted ds (Assign n v) =
     (case find (\<lambda>d. decl_name d = n) ds of Some d \<Rightarrow> \<not> is_const d | None \<Rightarrow> False)"

fun exec :: "statement \<Rightarrow> store \<Rightarrow> store" where
  "exec (Load n) s = s"
| "exec (Assign n v) s = s(n \<mapsto> v)"

fun run :: "statement list \<Rightarrow> store \<Rightarrow> store" where
  "run [] s = s"
| "run (c # cs) s = run cs (exec c s)"

text \<open>Every condition of a conditional line, at any depth.\<close>

fun line_conditions :: "line \<Rightarrow> condition list"
  and lines_conditions :: "line list \<Rightarrow> condition list" where
  "line_conditions (Import h) = []"
| "line_conditions (IfElse c a b) = c # lines_conditions a @ lines_conditions b"
| "line_conditions (Define n r) = []"
| "line_conditions (Undef n) = []"
| "line_conditions (Comment c) = []"
| "line_conditions (Decl ts) = []"
| "lines_conditions [] = []"
| "lines_conditions (l # ls) = line_conditions l @ lines_conditions ls"

subsection \<open>The header in a context where its identifiers are free\<close>

text \<open>
  The line \<^verbatim>\<open>static NSString * const NAME AC_SWIFT_PRIVATE = @"VALUE";\<close> after expansion,
  and the declaration the compiler reads from it.
\<close>

definition expanded_constant :: "unit_context \<Rightarrow> string \<Rightarrow> string \<Rightarrow> token list" where
  "expanded_constant ctx n v =
     [Ident ''static'', Ident ''NSString'', Sym ''*'', Ident ''const'', Ident n] @
     (if has_attribute ctx ''swift_private'' then swift_private_attribute else []) @
     [Sym ''='', ObjCString v, Sym '';'']"

definition constant_decl :: "unit_context \<Rightarrow> string \<Rightarrow> string \<Rightarrow> var_decl" where
  "constant_decl ctx n v =
     \<lparr>is_static = True, pointee_type = ''NSString'', is_const = True, decl_name = n,
      attributes = (if has_attribute ctx ''swift_private'' then [''swift_private''] else []),
      initializer = v\<rparr>"

lemma own_identifiers_eq:
  "own_identifiers =
     [''__attribute__'', ''swift_private'', ''ACBundleID'', ''ACColorNameAccentColor'',
      ''ACColorNameColor'', ''static'', ''NSString'', ''const'', ''ACImageNameImage'']"
  by (simp add: own_identifiers_def GeneratedAssetSymbols_def string_constant_def)

lemma emitted_preprocess:
  assumes "identifiers_free ctx"
  shows "emitted (preprocess ctx) =
     [expanded_constant ctx ''ACBundleID'' ''com.geekedoutinnovations.MetacognitiveJournal'',
      expanded_constant ctx ''ACColorNameAccentColor'' ''AccentColor'',
      expanded_constant ctx ''ACColorNameColor'' ''Color'',
      expanded_constant ctx ''ACImageNameImage'' ''Image'']"
  using assms
  by (simp add: identifiers_free_def own_identifiers_eq preprocess_def GeneratedAssetSymbols_def
      string_constant_def map_add_def expanded_constant_def swift_private_attribute_def)

lemma parse_expanded_constant:
  "parse_declaration (expanded_constant ctx n v) = Inr (constant_decl ctx n v)"
  by (simp add: parse_declaration_def expanded_constant_def constant_decl_def
      swift_private_attribute_def)

lemma translation_unit_eq:
  assumes "identifiers_free ctx"
  shows "translation_unit ctx =
     Inr [constant_decl ctx ''ACBundleID'' ''com.geekedoutinnovations.MetacognitiveJournal'',
          constant_decl ctx ''ACColorNameAccentColor'' ''AccentColor'',
          constant_decl ctx ''ACColorNameColor'' ''Color'',
          constant_decl ctx ''ACImageNameImage'' ''Image'']"
  by (simp add: translation_unit_def emitted_preprocess[OF assms] parse_expanded_constant)

lemma identifiers_free_clang: "identifiers_free clang_context"
  by (simp add: identifiers_free_def clang_context_def)


lemma macros_preprocess:
  "macros (preprocess ctx) =
     (predefined ctx ++ header_macros ctx ''Foundation/Foundation.h'')
       (''AC_SWIFT_PRIVATE'' := None)"
  by (simp add: preprocess_def GeneratedAssetSymbols_def string_constant_def)

text \<open>A program that is accepted against declarations that are all \<^verbatim>\<open>const\<close> changes nothing.\<close>

lemma run_accepted:
  assumes "\<forall>d \<in> set ds. is_const d" and "list_all (accepted ds) prog"
  shows "run prog s = s"
  using assms(2)
proof (induction prog arbitrary: s)
  case Nil
  then show ?case by simp
next
  case (Cons c cs)
  from Cons.prems have c: "accepted ds c" and cs: "list_all (accepted ds) cs" by simp_all
  have "exec c s = s"
  proof (cases c)
    case (Load n)
    then show ?thesis by simp
  next
    case (Assign n v)
    with c obtain d where "find (\<lambda>d. decl_name d = n) ds = Some d" and "\<not> is_const d"
      by (auto split: option.splits)
    then have "d \<in> set ds" by (auto simp: find_Some_iff)
    with assms(1) \<open>\<not> is_const d\<close> show ?thesis by blast
  qed
  with Cons.IH[OF cs] show ?case by simp
qed

lemma list_all_take: "list_all P xs \<Longrightarrow> list_all P (take i xs)"
  by (auto simp: list_all_iff dest: in_set_takeD)

section \<open>Properties of the header\<close>

text \<open>
  Claim C1. The three asset-name constants have the quoted values: in every context where the
  header's identifiers are free, \<^verbatim>\<open>ACColorNameAccentColor\<close> reads as \<^verbatim>\<open>AccentColor\<close>,
  \<^verbatim>\<open>ACColorNameColor\<close> as \<^verbatim>\<open>Color\<close> and \<^verbatim>\<open>ACImageNameImage\<close> as \<^verbatim>\<open>Image\<close>.
\<close>

theorem asset_name_values:
  assumes "identifiers_free ctx"
  shows "constant_value ctx ''ACColorNameAccentColor'' = Inr ''AccentColor'' \<and>
         constant_value ctx ''ACColorNameColor'' = Inr ''Color'' \<and>
         constant_value ctx ''ACImageNameImage'' = Inr ''Image''"
  by (simp add: constant_value_def translation_unit_eq[OF assms] initial_store_def read_def
      constant_decl_def)

theorem asset_name_values_witness:
  "identifiers_free clang_context \<and>
   constant_value clang_context ''ACColorNameAccentColor'' = Inr ''AccentColor'' \<and>
   constant_value clang_context ''ACColorNameColor'' = Inr ''Color'' \<and>
   constant_value clang_context ''ACImageNameImage'' = Inr ''Image''"
  using identifiers_free_clang asset_name_values[OF identifiers_free_clang] by simp

text \<open>
  Claim C2. The claim that the file declares exactly three string constants fails: it declares
  four. Amended: the file has exactly four declaration lines; apart from them and the
  comments it has the import, the macro guard and the final \<^verbatim>\<open>#undef\<close>; and the four
  lines declare \<^verbatim>\<open>ACBundleID\<close>, \<^verbatim>\<open>ACColorNameAccentColor\<close>, \<^verbatim>\<open>ACColorNameColor\<close> and
  \<^verbatim>\<open>ACImageNameImage\<close>, each a static \<^verbatim>\<open>const\<close> pointer to \<^verbatim>\<open>NSString\<close>.
\<close>

theorem four_string_constants:
  assumes "identifiers_free ctx"
  shows "card (set (filter is_declaration GeneratedAssetSymbols)) = 4 \<and>
         length (filter is_declaration GeneratedAssetSymbols) = 4 \<and>
         filter (\<lambda>l. \<not> is_declaration l \<and> \<not> is_comment l) GeneratedAssetSymbols =
           [Import ''Foundation/Foundation.h'',
            IfElse (HasAttribute ''swift_private'')
              [Define ''AC_SWIFT_PRIVATE'' swift_private_attribute]
              [Define ''AC_SWIFT_PRIVATE'' []],
            Undef ''AC_SWIFT_PRIVATE''] \<and>
         (\<exists>ds. translation_unit ctx = Inr ds \<and>
            map decl_name ds =
              [''ACBundleID'', ''ACColorNameAccentColor'', ''ACColorNameColor'',
               ''ACImageNameImage''] \<and>
            (\<forall>d \<in> set ds. is_static d \<and> is_const d \<and> pointee_type d = ''NSString''))"
  by (simp add: GeneratedAssetSymbols_def string_constant_def swift_private_attribute_def
        translation_unit_eq[OF assms] constant_decl_def)

theorem four_string_constants_witness:
  "identifiers_free clang_context \<and>
   card (set (filter is_declaration GeneratedAssetSymbols)) = 4 \<and>
   (\<exists>ds. translation_unit clang_context = Inr ds \<and>
      map decl_name ds =
        [''ACBundleID'', ''ACColorNameAccentColor'', ''ACColorNameColor'',
         ''ACImageNameImage''])"
  using identifiers_free_clang four_string_constants[OF identifiers_free_clang] by auto

theorem three_constants_counterexample:
  "card (set (filter is_declaration GeneratedAssetSymbols)) \<noteq> 3"
  by (simp add: GeneratedAssetSymbols_def string_constant_def)

text \<open>
  Claim C3. Every string constant the header declares (the bundle ID, the two color names, the
  image name) is a non-empty string.
\<close>

theorem constants_nonempty:
  assumes "identifiers_free ctx"
  shows "\<exists>ds. translation_unit ctx = Inr ds \<and> length ds = 4 \<and>
           (\<forall>d \<in> set ds. initializer d \<noteq> [])"
  by (simp add: translation_unit_eq[OF assms] constant_decl_def)

theorem constants_nonempty_witness:
  "identifiers_free clang_context \<and>
   (\<exists>ds. translation_unit clang_context = Inr ds \<and> length ds = 4 \<and>
      list_all (\<lambda>d. initializer d \<noteq> []) ds)"
  using identifiers_free_clang constants_nonempty[OF identifiers_free_clang]
  by (simp add: list_all_iff)

text \<open>
  Claim C4. The constants are immutable: a program that the compiler accepts against the header's
  declarations leaves the store as it was initially after any number of its statements
  (nothing is created, changed or removed), so two reads of a declared constant at any
  two points of the program give the same string, the declared value.
\<close>

theorem constants_immutable:
  assumes "identifiers_free ctx"
    and "translation_unit ctx = Inr ds"
    and "list_all (accepted ds) prog"
    and "n \<in> set (map decl_name ds)"
  shows "run (take i prog) (initial_store ds) = initial_store ds \<and>
         read (run (take i prog) (initial_store ds)) n =
           read (run (take j prog) (initial_store ds)) n \<and>
         read (run (take i prog) (initial_store ds)) n = constant_value ctx n \<and>
         (\<exists>v. constant_value ctx n = Inr v)"
proof -
  from translation_unit_eq[OF assms(1)] assms(2)
  have ds: "ds = [constant_decl ctx ''ACBundleID'' ''com.geekedoutinnovations.MetacognitiveJournal'',
          constant_decl ctx ''ACColorNameAccentColor'' ''AccentColor'',
          constant_decl ctx ''ACColorNameColor'' ''Color'',
          constant_decl ctx ''ACImageNameImage'' ''Image'']"
    by simp
  then have const: "\<forall>d \<in> set ds. is_const d"
    by (simp add: constant_decl_def)
  have same: "run (take k prog) (initial_store ds) = initial_store ds" for k
    using run_accepted[OF const list_all_take[OF assms(3)]] .
  have val: "read (initial_store ds) n = constant_value ctx n"
    by (simp add: constant_value_def assms(2))
  from assms(4) have "\<exists>v. read (initial_store ds) n = Inr v"
    by (auto simp add: ds initial_store_def read_def constant_decl_def)
  with same val show ?thesis by simp
qed

theorem constants_immutable_witness:
  "identifiers_free clang_context \<and>
   (\<exists>ds. translation_unit clang_context = Inr ds \<and>
      list_all (accepted ds) [Load ''ACBundleID'', Load ''ACImageNameImage''] \<and>
      ''ACBundleID'' \<in> set (map decl_name ds) \<and>
      read (run (take 0 [Load ''ACBundleID'', Load ''ACImageNameImage'']) (initial_store ds))
          ''ACBundleID'' =
        read (run (take 2 [Load ''ACBundleID'', Load ''ACImageNameImage'']) (initial_store ds))
          ''ACBundleID'')"
proof -
  obtain ds where tu: "translation_unit clang_context = Inr ds"
    and ds: "ds = [constant_decl clang_context ''ACBundleID'' ''com.geekedoutinnovations.MetacognitiveJournal'',
          constant_decl clang_context ''ACColorNameAccentColor'' ''AccentColor'',
          constant_decl clang_context ''ACColorNameColor'' ''Color'',
          constant_decl clang_context ''ACImageNameImage'' ''Image'']"
    using translation_unit_eq[OF identifiers_free_clang] by simp
  have acc: "list_all (accepted ds) [Load ''ACBundleID'', Load ''ACImageNameImage'']"
    by (simp add: ds constant_decl_def)
  have mem: "''ACBundleID'' \<in> set (map decl_name ds)"
    by (simp add: ds constant_decl_def)
  from constants_immutable[OF identifiers_free_clang tu acc mem, of 0 2]
  have "read (run (take 0 [Load ''ACBundleID'', Load ''ACImageNameImage'']) (initial_store ds))
          ''ACBundleID'' =
        read (run (take 2 [Load ''ACBundleID'', Load ''ACImageNameImage'']) (initial_store ds))
          ''ACBundleID''"
    by blast
  with identifiers_free_clang tu acc mem show ?thesis by blast
qed



text \<open>
  Claim C6. Reading a declared constant never fails: for each of the four declared names the
  header compiles and the read returns a value, not an error.
\<close>

theorem reading_succeeds:
  assumes "identifiers_free ctx"
    and "n \<in> set [''ACBundleID'', ''ACColorNameAccentColor'', ''ACColorNameColor'',
                  ''ACImageNameImage'']"
  shows "\<exists>v. constant_value ctx n = Inr v"
  using assms(2)
  by (auto simp add: constant_value_def translation_unit_eq[OF assms(1)] initial_store_def
      read_def constant_decl_def)

theorem reading_succeeds_witness:
  "identifiers_free clang_context \<and>
   ''ACColorNameColor'' \<in> set [''ACBundleID'', ''ACColorNameAccentColor'', ''ACColorNameColor'',
                  ''ACImageNameImage''] \<and>
   (\<exists>v. constant_value clang_context ''ACColorNameColor'' = Inr v)"
  using identifiers_free_clang reading_succeeds[OF identifiers_free_clang, of "''ACColorNameColor''"]
  by simp

text \<open>
  Claim C8. The constant \<^verbatim>\<open>ACBundleID\<close> reads as
  \<^verbatim>\<open>com.geekedoutinnovations.MetacognitiveJournal\<close>.
\<close>

theorem bundle_id_value:
  assumes "identifiers_free ctx"
  shows "constant_value ctx ''ACBundleID'' = Inr ''com.geekedoutinnovations.MetacognitiveJournal''"
  by (simp add: constant_value_def translation_unit_eq[OF assms] initial_store_def read_def
      constant_decl_def)

theorem bundle_id_value_witness:
  "identifiers_free clang_context \<and>
   constant_value clang_context ''ACBundleID'' =
     Inr ''com.geekedoutinnovations.MetacognitiveJournal''"
  using identifiers_free_clang bundle_id_value[OF identifiers_free_clang] by simp

text \<open>
  Claim C9. The four declared constants are pairwise distinct in name and in value.
\<close>

theorem constants_distinct:
  assumes "identifiers_free ctx"
  shows "\<exists>ds. translation_unit ctx = Inr ds \<and>
           map decl_name ds =
             [''ACBundleID'', ''ACColorNameAccentColor'', ''ACColorNameColor'',
              ''ACImageNameImage''] \<and>
           map initializer ds =
             [''com.geekedoutinnovations.MetacognitiveJournal'', ''AccentColor'', ''Color'',
              ''Image''] \<and>
           distinct (map decl_name ds) \<and> distinct (map initializer ds)"
  by (simp add: translation_unit_eq[OF assms] constant_decl_def)

theorem constants_distinct_witness:
  "identifiers_free clang_context \<and>
   (\<exists>ds. translation_unit clang_context = Inr ds \<and>
      distinct (map decl_name ds) \<and> distinct (map initializer ds))"
  using identifiers_free_clang constants_distinct[OF identifiers_free_clang] by blast

text \<open>
  Claim C10. The claim that the macro environment of any including translation unit is unchanged
  with respect to \<^verbatim>\<open>AC_SWIFT_PRIVATE\<close> fails for a translation unit that had defined the
  macro itself: the header removes that definition. Amended: after the header
  \<^verbatim>\<open>AC_SWIFT_PRIVATE\<close> is undefined, whatever was defined before; every other macro is as
  the including translation unit and Foundation left it; the environment is unchanged
  with respect to \<^verbatim>\<open>AC_SWIFT_PRIVATE\<close> when the includer had not defined it; and the
  header emits four declarations, those of the four constants.
\<close>

theorem helper_macro_undefined:
  "macros (preprocess ctx) ''AC_SWIFT_PRIVATE'' = None \<and>
   (\<forall>x. x \<noteq> ''AC_SWIFT_PRIVATE'' \<longrightarrow>
      macros (preprocess ctx) x =
        (predefined ctx ++ header_macros ctx ''Foundation/Foundation.h'') x) \<and>
   (predefined ctx ''AC_SWIFT_PRIVATE'' = None \<longrightarrow>
      macros (preprocess ctx) ''AC_SWIFT_PRIVATE'' = predefined ctx ''AC_SWIFT_PRIVATE'') \<and>
   length (emitted (preprocess ctx)) = 4 \<and>
   (identifiers_free ctx \<longrightarrow>
      (\<exists>ds. translation_unit ctx = Inr ds \<and>
         map decl_name ds =
           [''ACBundleID'', ''ACColorNameAccentColor'', ''ACColorNameColor'',
            ''ACImageNameImage'']))"
proof -
  have "length (emitted (preprocess ctx)) = 4"
    by (simp add: preprocess_def GeneratedAssetSymbols_def string_constant_def)
  moreover have "identifiers_free ctx \<longrightarrow>
      (\<exists>ds. translation_unit ctx = Inr ds \<and>
         map decl_name ds =
           [''ACBundleID'', ''ACColorNameAccentColor'', ''ACColorNameColor'',
            ''ACImageNameImage''])"
    by (simp add: translation_unit_eq constant_decl_def)
  ultimately show ?thesis
    by (simp add: macros_preprocess)
qed

theorem helper_macro_undefined_witness:
  "predefined clang_context ''AC_SWIFT_PRIVATE'' = None \<and>
   identifiers_free clang_context \<and>
   ''static'' \<noteq> ''AC_SWIFT_PRIVATE'' \<and>
   macros (preprocess clang_context) ''AC_SWIFT_PRIVATE'' =
     predefined clang_context ''AC_SWIFT_PRIVATE'' \<and>
   macros (preprocess clang_context) ''static'' =
     (predefined clang_context ++ header_macros clang_context ''Foundation/Foundation.h'')
       ''static'' \<and>
   (\<exists>ds. translation_unit clang_context = Inr ds \<and>
      map decl_name ds =
        [''ACBundleID'', ''ACColorNameAccentColor'', ''ACColorNameColor'',
         ''ACImageNameImage''])"
proof -
  have p: "predefined clang_context ''AC_SWIFT_PRIVATE'' = None"
    by (simp add: clang_context_def)
  have n: "''static'' \<noteq> ''AC_SWIFT_PRIVATE''"
    by simp
  from p n identifiers_free_clang helper_macro_undefined[of clang_context] show ?thesis
    by simp
qed

theorem macro_unchanged_counterexample:
  "macros (preprocess predefining_context) ''AC_SWIFT_PRIVATE'' \<noteq>
     predefined predefining_context ''AC_SWIFT_PRIVATE''"
  by (simp add: macros_preprocess predefining_context_def)

end
